theory Spec2Isabelle
  imports Main "HOL-Library.AList"
begin

section \<open>Common values\<close>

text \<open>
  A JavaScript exception is a value. \<open>Error m\<close> is \<open>new Error(m)\<close>; \<open>TypeError m\<close> is the
  engine's TypeError (a property read on \<open>null\<close> or \<open>undefined\<close>, a call of what is not a
  function) and \<open>SyntaxError m\<close> the error of a JSON parser, with the engine's message \<open>m\<close>.
\<close>

datatype jsError = Error string | TypeError string | SyntaxError string

fun message :: "jsError \<Rightarrow> string" where
  "message (Error m) = m"
| "message (TypeError m) = m"
| "message (SyntaxError m) = m"

text \<open>
  A value returned by \<open>JSON.parse\<close> whose shape the program does not fix. The members of
  an object are listed with each name once. Numbers are the integers.
\<close>

datatype json =
    JNull
  | JBool bool
  | JNumber int
  | JString string
  | JArray "json list"
  | JObject "(string \<times> json) list"

text \<open>
  The read \<open>v.name\<close> of a member that no prototype defines: a TypeError on \<open>null\<close>, the
  member of an object, and \<open>undefined\<close> (\<open>None\<close>) on an object without it and on every
  other value.
\<close>

fun getMember :: "json \<Rightarrow> string \<Rightarrow> jsError + json option" where
  "getMember JNull name =
     Inl (TypeError (''Cannot read properties of null (reading '' @ [CHR 0x27] @ name
                       @ [CHR 0x27] @ '')''))"
| "getMember (JObject members) name = Inr (map_of members name)"
| "getMember v name = Inr None"

text \<open>
  The call \<open>v.slice(0, n)\<close> on a value that is \<open>undefined\<close> (\<open>None\<close>) or a JSON value:
  arrays and strings have \<open>slice\<close>; the read throws on \<open>undefined\<close> and \<open>null\<close>; on every
  other value \<open>slice\<close> is not a function.
\<close>

fun slice :: "nat \<Rightarrow> json option \<Rightarrow> jsError + json" where
  "slice n None = Inl (TypeError ''Cannot read properties of undefined (reading 'slice')'')"
| "slice n (Some JNull) = Inl (TypeError ''Cannot read properties of null (reading 'slice')'')"
| "slice n (Some (JArray xs)) = Inr (JArray (take n xs))"
| "slice n (Some (JString s)) = Inr (JString (take n s))"
| "slice n (Some v) = Inl (TypeError ''analysis.recommendations.slice is not a function'')"

section \<open>Policy analyzer: risk scoring (results.js, PolicyAnalyzer)\<close>

text \<open>The risk labels are the strings \<open>'green'\<close>, \<open>'yellow'\<close> and \<open>'red'\<close>.\<close>

datatype risk = Green | Yellow | Red

text \<open>The order green < yellow < red of the labels.\<close>

fun severity :: "risk \<Rightarrow> nat" where
  "severity Green = 0"
| "severity Yellow = 1"
| "severity Red = 2"

definition riskMax :: "risk \<Rightarrow> risk \<Rightarrow> risk" where
  "riskMax a b = (if severity a \<le> severity b then b else a)"

text \<open>
  The value \<open>JSON.parse\<close> gives for the model's answer to one chunk, in the shape the
  prompt of \<open>analyzeChunk\<close> asks for: an object whose members \<open>keyPoints\<close>, \<open>redFlags\<close>
  and \<open>userRights\<close> are arrays of strings and whose member \<open>compliance\<close> is an object of
  string tags. Each member may be missing: \<open>None\<close> is a member that is absent (or falsy),
  \<open>Some []\<close> an empty array, which JavaScript takes as truthy. \<open>JsonNull\<close> is the JSON text
  \<open>null\<close>, the one parsed value on which a property read throws.
\<close>

record chunkFinding =
  chunkKeyPoints :: "string list option"
  chunkRedFlags :: "string list option"
  chunkCompliance :: "(string \<rightharpoonup> string) option"
  chunkUserRights :: "string list option"

datatype chunkAnalysis = JsonNull | Finding chunkFinding

text \<open>
  The object \<open>analysis\<close> that \<open>performAIAnalysis\<close> builds and \<open>calculateRiskScores\<close> reads.
  Its members \<open>executiveSummary\<close> and \<open>recommendations\<close> hold what the summary answer
  gave, of whatever shape; \<open>None\<close> is \<open>undefined\<close>.
\<close>

record analysis =
  executiveSummary :: "json option"
  keyPoints :: "string list"
  redFlags :: "string list"
  recommendations :: json
  compliance :: "string \<rightharpoonup> string"
  sections :: "chunkAnalysis list"

record riskAssessment =
  overall :: risk
  regulatory :: risk
  transparency :: risk
  userRights :: risk

text \<open>
  \<open>analysis.sections.some(section => section.userRights && section.userRights.length > 0)\<close>:
  \<open>some\<close> stops at the first section for which the callback is truthy, and the callback
  throws a TypeError on a \<open>null\<close> section.
\<close>

definition nullUserRights :: jsError where
  "nullUserRights = TypeError ''Cannot read properties of null (reading 'userRights')''"

fun someUserRights :: "chunkAnalysis list \<Rightarrow> jsError + bool" where
  "someUserRights [] = Inr False"
| "someUserRights (JsonNull # ss) = Inl nullUserRights"
| "someUserRights (Finding f # ss) =
     (if (case chunkUserRights f of None \<Rightarrow> False | Some rs \<Rightarrow> length rs > 0) then Inr True
      else someUserRights ss)"

text \<open>
  \<open>calculateRiskScores(analysis)\<close>. The members \<open>redFlags\<close> and \<open>compliance\<close> of the
  analysis are an array and an object, both truthy, so the guards \<open>analysis.redFlags &&\<close>
  and \<open>if (analysis.compliance)\<close> always pass. The assignments are kept in the order of
  the source: the red-flag test first, the compliance test after it.
\<close>

definition calculateRiskScores :: "analysis \<Rightarrow> jsError + riskAssessment" where
  "calculateRiskScores a =
     (let regulatoryRisk = Green;
          transparencyRisk = Green;
          userRightsRisk = Green;
          (regulatoryRisk, transparencyRisk) =
             (if length (redFlags a) > 0 then (Red, Yellow)
              else (regulatoryRisk, transparencyRisk));
          regulatoryRisk =
             (if compliance a ''gdpr'' = Some ''non-compliant''
                 \<or> compliance a ''ccpa'' = Some ''non-compliant'' then Red
              else if compliance a ''gdpr'' = Some ''partially''
                 \<or> compliance a ''ccpa'' = Some ''partially'' then Yellow
              else regulatoryRisk)
      in case someUserRights (sections a) of
           Inl e \<Rightarrow> Inl e
         | Inr hasUserRights \<Rightarrow>
             (let userRightsRisk = (if \<not> hasUserRights then Yellow else userRightsRisk);
                  risks = [regulatoryRisk, transparencyRisk, userRightsRisk];
                  overallRisk =
                    (if Red \<in> set risks then Red
                     else if Yellow \<in> set risks then Yellow else Green)
              in Inr \<lparr>overall = overallRisk, regulatory = regulatoryRisk,
                      transparency = transparencyRisk, userRights = userRightsRisk\<rparr>))"

section \<open>Policy analyzer: chunking (results.js, PolicyAnalyzer.chunkContent)\<close>

text \<open>
  A JavaScript string is a list of characters and \<open>.length\<close> is the length of the list
  (the texts modelled are those whose UTF-16 code units fit a \<open>char\<close>).

  \<open>content.split(/[.!?]+/)\<close>: the pieces between maximal runs of the three sentence
  terminators; a text that starts or ends with a terminator gives an empty first or last
  piece, and a text without terminators is its own single piece.
\<close>

definition isTerminator :: "char \<Rightarrow> bool" where
  "isTerminator c = (c = CHR ''.'' \<or> c = CHR ''!'' \<or> c = CHR ''?'')"

function splitSentences :: "string \<Rightarrow> string list" where
  "splitSentences s =
     (if dropWhile (\<lambda>c. \<not> isTerminator c) s = [] then [takeWhile (\<lambda>c. \<not> isTerminator c) s]
      else takeWhile (\<lambda>c. \<not> isTerminator c) s
             # splitSentences (dropWhile isTerminator (dropWhile (\<lambda>c. \<not> isTerminator c) s)))"
  by pat_completeness auto
termination
proof (relation "measure length")
  show "wf (measure length)" by simp
next
  fix s :: string
  assume ne: "dropWhile (\<lambda>c. \<not> isTerminator c) s \<noteq> []"
  define r where "r = dropWhile (\<lambda>c. \<not> isTerminator c) s"
  from ne obtain c cs where r: "r = c # cs" by (cases r) (auto simp: r_def)
  have "isTerminator c"
    using hd_dropWhile [of "\<lambda>c. \<not> isTerminator c" s] ne r unfolding r_def by auto
  then have "length (dropWhile isTerminator r) \<le> length cs"
    using r length_dropWhile_le [of isTerminator cs] by simp
  moreover have "length r \<le> length s"
    unfolding r_def by (rule length_dropWhile_le)
  ultimately show "(dropWhile isTerminator (dropWhile (\<lambda>c. \<not> isTerminator c) s), s) \<in> measure length"
    using r unfolding r_def by simp
qed

declare splitSentences.simps [simp del]

text \<open>
  \<open>s.trim()\<close> removes the white space and line terminators at both ends: the characters
  U+0009 to U+000D, U+0020 and U+00A0.
\<close>

definition isWhiteSpace :: "char \<Rightarrow> bool" where
  "isWhiteSpace c = ((9 \<le> (of_char c :: nat) \<and> (of_char c :: nat) \<le> 13)
                      \<or> (of_char c :: nat) = 32 \<or> (of_char c :: nat) = 160)"

definition trim :: "string \<Rightarrow> string" where
  "trim s = rev (dropWhile isWhiteSpace (rev (dropWhile isWhiteSpace s)))"

text \<open>
  The \<open>for\<close> loop of \<open>chunkContent\<close> over the sentences, on the pair of the array
  \<open>chunks\<close> and the string \<open>currentChunk\<close>. A string is truthy when it is not empty.
\<close>

fun chunkLoop :: "nat \<Rightarrow> string list \<Rightarrow> string list \<times> string \<Rightarrow> string list \<times> string" where
  "chunkLoop maxChunkSize [] (chunks, currentChunk) = (chunks, currentChunk)"
| "chunkLoop maxChunkSize (sentence # rest) (chunks, currentChunk) =
     (if length (currentChunk @ sentence) > maxChunkSize
      then chunkLoop maxChunkSize rest
             ((if trim currentChunk \<noteq> [] then chunks @ [trim currentChunk] else chunks),
              sentence)
      else chunkLoop maxChunkSize rest
             (chunks, currentChunk @ (if currentChunk \<noteq> [] then ''. '' else []) @ sentence))"

definition chunkContent :: "string \<Rightarrow> nat \<Rightarrow> string list" where
  "chunkContent content maxChunkSize =
     (let sentences = filter (\<lambda>s. length (trim s) > 10) (splitSentences content);
          (chunks, currentChunk) = chunkLoop maxChunkSize sentences ([], []);
          chunks = (if trim currentChunk \<noteq> [] then chunks @ [trim currentChunk] else chunks)
      in filter (\<lambda>chunk. length chunk > 50) chunks)"

text \<open>The default of the parameter \<open>maxChunkSize\<close>.\<close>

definition defaultMaxChunkSize :: nat where
  "defaultMaxChunkSize = 2000"

section \<open>Policy analyzer: inference and aggregation (results.js, PolicyAnalyzer)\<close>

text \<open>
  The inference service is outside the program. One call \<open>env.AI.run(...)\<close> followed by
  \<open>JSON.parse(response.response)\<close> has three outcomes: the call throws, the answer is not
  JSON text (\<open>JSON.parse\<close> throws), or \<open>JSON.parse\<close> returns a value.
\<close>

datatype 'a aiOutcome = Throws jsError | Unparsable | Parsed 'a

text \<open>The object returned by the \<open>catch\<close> block of \<open>analyzeChunk\<close>.\<close>

definition placeholderFinding :: chunkAnalysis where
  "placeholderFinding =
     Finding \<lparr>chunkKeyPoints = Some [''Unable to analyze this section''],
              chunkRedFlags = Some [],
              chunkCompliance = Some [''gdpr'' \<mapsto> ''unknown'', ''ccpa'' \<mapsto> ''unknown''],
              chunkUserRights = Some []\<rparr>"

text \<open>
  \<open>analyzeChunk(chunk, type)\<close>. The prompts are built from \<open>type\<close> and \<open>chunk\<close>, so the
  service is a function \<open>run\<close> of the two. The parsed value is returned as it is: the
  source has no test of its shape.
\<close>

definition analyzeChunk ::
  "(string \<Rightarrow> string \<Rightarrow> chunkAnalysis aiOutcome) \<Rightarrow> string \<Rightarrow> string \<Rightarrow> chunkAnalysis" where
  "analyzeChunk run chunk ptype =
     (case run chunk ptype of
        Parsed result \<Rightarrow> result
      | Throws e \<Rightarrow> placeholderFinding
      | Unparsable \<Rightarrow> placeholderFinding)"

text \<open>
  The body of the loop of \<open>performAIAnalysis\<close> for one chunk analysis: it is pushed to
  \<open>sections\<close>, then its members are merged. On \<open>null\<close> the read of \<open>keyPoints\<close> throws
  after the push, and the \<open>catch\<close> of the loop logs the error and goes on.
  \<open>Object.assign\<close> overrides the tags already present.
\<close>

fun aggregateChunk :: "analysis \<Rightarrow> chunkAnalysis \<Rightarrow> analysis" where
  "aggregateChunk a JsonNull = a\<lparr>sections := sections a @ [JsonNull]\<rparr>"
| "aggregateChunk a (Finding f) =
     a\<lparr>sections := sections a @ [Finding f],
       keyPoints := (case chunkKeyPoints f of None \<Rightarrow> keyPoints a | Some ks \<Rightarrow> keyPoints a @ ks),
       redFlags := (case chunkRedFlags f of None \<Rightarrow> redFlags a | Some rs \<Rightarrow> redFlags a @ rs),
       compliance := (case chunkCompliance f of None \<Rightarrow> compliance a
                      | Some c \<Rightarrow> compliance a ++ c)\<rparr>"

text \<open>
  The object returned by the \<open>catch\<close> block of \<open>generateSummaryAnalysis\<close>, and the summary
  and recommendations installed by the \<open>catch\<close> of the summary step of \<open>performAIAnalysis\<close>.
\<close>

definition limitedSummary :: json where
  "limitedSummary =
     JObject [(''executiveSummary'', JString ''Analysis completed with limited AI processing.''),
              (''recommendations'',
               JArray [JString ''Review the full policy text'',
                       JString ''Consult with a privacy expert if needed''])]"

definition unableSummary :: "json option \<times> json option" where
  "unableSummary =
     (Some (JString ''Unable to generate summary analysis.''),
      Some (JArray [JString ''Review the policy manually'']))"

text \<open>
  \<open>generateSummaryAnalysis(analysis, type)\<close>: the parsed answer to the summary prompt, of
  whatever shape, or the static object when the call throws or the answer is not JSON.
\<close>

definition generateSummaryAnalysis ::
  "(analysis \<Rightarrow> string \<Rightarrow> json aiOutcome) \<Rightarrow> analysis \<Rightarrow> string \<Rightarrow> json" where
  "generateSummaryAnalysis runSummary a ptype =
     (case runSummary a ptype of
        Parsed result \<Rightarrow> result
      | Throws e \<Rightarrow> limitedSummary
      | Unparsable \<Rightarrow> limitedSummary)"

text \<open>
  \<open>performAIAnalysis(chunks, type, options)\<close> (\<open>options\<close> is not read). The summary step
  reads the members \<open>executiveSummary\<close> and \<open>recommendations\<close> of the summary inside a
  \<open>try\<close>: when a read throws, the \<open>catch\<close> installs the static summary. The three
  \<open>slice\<close> calls that follow are outside every \<open>try\<close>: \<open>keyPoints\<close> and \<open>redFlags\<close> are
  arrays, \<open>recommendations\<close> is whatever the summary gave, and a TypeError of its
  \<open>slice\<close> leaves the function.
\<close>

definition performAIAnalysis ::
  "(string \<Rightarrow> string \<Rightarrow> chunkAnalysis aiOutcome) \<Rightarrow> (analysis \<Rightarrow> string \<Rightarrow> json aiOutcome)
     \<Rightarrow> string list \<Rightarrow> string \<Rightarrow> jsError + analysis" where
  "performAIAnalysis run runSummary chunks ptype =
     (let analysis = \<lparr>executiveSummary = Some (JString []), keyPoints = [], redFlags = [],
                       recommendations = JArray [], compliance = Map.empty, sections = []\<rparr>;
          sampleChunks = take 3 chunks;
          analysis = foldl (\<lambda>a chunk. aggregateChunk a (analyzeChunk run chunk ptype))
                       analysis sampleChunks;
          summaryAnalysis = generateSummaryAnalysis runSummary analysis ptype;
          (summary, recs) =
             (case (getMember summaryAnalysis ''executiveSummary'',
                    getMember summaryAnalysis ''recommendations'') of
                (Inr es, Inr rs) \<Rightarrow> (es, rs)
              | _ \<Rightarrow> unableSummary)
      in case slice 5 recs of
           Inl e \<Rightarrow> Inl e
         | Inr rs \<Rightarrow>
             Inr (analysis\<lparr>executiveSummary := summary,
                            keyPoints := take 10 (keyPoints analysis),
                            redFlags := take 5 (redFlags analysis),
                            recommendations := rs\<rparr>))"





text \<open>The object returned by \<open>analyzePolicy\<close>.\<close>

record analysisResult =
  policyUrl :: string
  policyType :: string
  contentLength :: nat
  processedLength :: nat
  chunksAnalyzed :: nat
  policyAnalysis :: analysis
  riskScores :: riskAssessment
  analyzedAt :: int
  version :: string

text \<open>
  \<open>analyzePolicy(url, type, options)\<close>. The fetch of the page, \<open>fetchPolicyContent\<close>, and
  the regular-expression filter \<open>preprocessContent\<close> are parameters; \<open>now\<close> is the value
  of \<open>Date.now()\<close>. Every exception of the five steps is caught and thrown again as
  \<open>Error('Analysis failed: ' + message)\<close>.
\<close>

definition analyzePolicy ::
  "(string \<Rightarrow> jsError + string) \<Rightarrow> (string \<Rightarrow> string \<Rightarrow> string)
     \<Rightarrow> (string \<Rightarrow> string \<Rightarrow> chunkAnalysis aiOutcome) \<Rightarrow> (analysis \<Rightarrow> string \<Rightarrow> json aiOutcome)
     \<Rightarrow> int \<Rightarrow> string \<Rightarrow> string \<Rightarrow> jsError + analysisResult" where
  "analyzePolicy fetchPolicyContent preprocessContent run runSummary now url ptype =
     (case fetchPolicyContent url of
        Inl e \<Rightarrow> Inl (Error (''Analysis failed: '' @ message e))
      | Inr content \<Rightarrow>
          (let processedContent = preprocessContent content ptype;
               chunks = chunkContent processedContent defaultMaxChunkSize
           in case performAIAnalysis run runSummary chunks ptype of
                Inl e \<Rightarrow> Inl (Error (''Analysis failed: '' @ message e))
              | Inr analysis \<Rightarrow>
                  (case calculateRiskScores analysis of
                     Inl e \<Rightarrow> Inl (Error (''Analysis failed: '' @ message e))
                   | Inr scores \<Rightarrow>
                       Inr \<lparr>policyUrl = url, policyType = ptype,
                            contentLength = length content,
                            processedLength = length processedContent,
                            chunksAnalyzed = length chunks,
                            policyAnalysis = analysis, riskScores = scores,
                            analyzedAt = now, version = ''1.0.0''\<rparr>)))"

section \<open>Policy cache (durable-objects/policy-cache.js)\<close>

text \<open>
  Times are milliseconds since the epoch, as \<open>Date.now()\<close> gives them. The \<open>Map\<close> of the
  cache keeps its keys in insertion order and \<open>set\<close> replaces the value of a key in place:
  an association list with \<open>AList.update\<close>.
\<close>

record 'v cacheEntry =
  result :: 'v
  timestamp :: int
  expiresAt :: int
  ttlMinutes :: int

text \<open>
  The state of the durable object: the map \<open>this.cache\<close>, the value stored under the key
  \<open>'cache'\<close> of the storage, and the time of the one pending alarm (\<open>setAlarm\<close> replaces it).
\<close>

record 'v policyCache =
  cache :: "(string \<times> 'v cacheEntry) list"
  persisted :: "(string \<times> 'v cacheEntry) list option"
  alarmAt :: "int option"

text \<open>
  The storage calls can fail: \<open>putThrows\<close> and \<open>setAlarmThrows\<close> hold the exception that
  \<open>storage.put\<close> and \<open>storage.setAlarm\<close> throw, if they do.
\<close>

record storageFaults =
  putThrows :: "jsError option"
  setAlarmThrows :: "jsError option"

text \<open>
  The JSON body of a store request. A member is \<open>None\<close> when it is absent; \<open>bodyResult\<close>
  is also \<open>None\<close> for a falsy result. An empty \<open>url\<close> is falsy.
\<close>

record 'v storeBody =
  bodyUrl :: "string option"
  bodyResult :: "'v option"
  bodyTtlMinutes :: "int option"

datatype 'v cacheBody =
    JsonSuccess
  | JsonError string
  | JsonCached 'v int int
  | PlainText string

datatype 'v cacheResponse = Response nat "'v cacheBody"

fun status :: "'v cacheResponse \<Rightarrow> nat" where
  "status (Response code b) = code"

text \<open>
  \<open>handleStore(request)\<close>. \<open>request.json()\<close> gives the body or throws; the request is
  refused with 400 when \<open>url\<close> or \<open>result\<close> is missing or falsy. \<open>now1\<close> and \<open>now2\<close> are
  the two reads of \<open>Date.now()\<close>, for \<open>expiresAt\<close> and for \<open>timestamp\<close>. The entry is put
  in the map before the storage calls, so it stays there when one of them throws.
\<close>

definition handleStore ::
  "jsError + 'v storeBody \<Rightarrow> int \<Rightarrow> int \<Rightarrow> storageFaults \<Rightarrow> 'v policyCache
     \<Rightarrow> 'v cacheResponse \<times> 'v policyCache" where
  "handleStore request now1 now2 faults s =
     (case request of
        Inl e \<Rightarrow> (Response 500 (JsonError (message e)), s)
      | Inr b \<Rightarrow>
          (case (bodyUrl b, bodyResult b) of
             (Some url, Some res) \<Rightarrow>
               if url = []
               then (Response 400 (JsonError ''URL and result are required''), s)
               else
                 (let ttl = (case bodyTtlMinutes b of None \<Rightarrow> 30 | Some m \<Rightarrow> m);
                      expires = now1 + (ttl * 60 * 1000);
                      cacheEntry = \<lparr>result = res, timestamp = now2, expiresAt = expires,
                                      ttlMinutes = ttl\<rparr>;
                      s1 = s\<lparr>cache := AList.update url cacheEntry (cache s)\<rparr>
                  in case putThrows faults of
                       Some e \<Rightarrow> (Response 500 (JsonError (message e)), s1)
                     | None \<Rightarrow>
                         (let s2 = s1\<lparr>persisted := Some (cache s1)\<rparr>
                          in case setAlarmThrows faults of
                               Some e \<Rightarrow> (Response 500 (JsonError (message e)), s2)
                             | None \<Rightarrow> (Response 200 JsonSuccess, s2\<lparr>alarmAt := Some expires\<rparr>)))
           | _ \<Rightarrow> (Response 400 (JsonError ''URL and result are required''), s)))"

text \<open>\<open>handleCheck(request)\<close>: the body holds the member \<open>url\<close>; \<open>now\<close> is \<open>Date.now()\<close>.\<close>

definition handleCheck ::
  "jsError + string option \<Rightarrow> int \<Rightarrow> 'v policyCache \<Rightarrow> 'v cacheResponse" where
  "handleCheck request now s =
     (case request of
        Inl e \<Rightarrow> Response 500 (JsonError (message e))
      | Inr urlField \<Rightarrow>
          (case urlField of
             None \<Rightarrow> Response 400 (JsonError ''URL is required'')
           | Some url \<Rightarrow>
               if url = [] then Response 400 (JsonError ''URL is required'')
               else
                 (case map_of (cache s) url of
                    Some cached \<Rightarrow>
                      if expiresAt cached > now
                      then Response 200 (JsonCached (result cached) (timestamp cached) (expiresAt cached))
                      else Response 404 (PlainText ''Not found'')
                  | None \<Rightarrow> Response 404 (PlainText ''Not found''))))"

text \<open>
  \<open>alarm()\<close>: the handler runs when the pending alarm fires, which clears it. The expired
  entries are deleted, the map is stored again if one was deleted, and the next alarm is
  set to \<open>Math.min\<close> of the \<open>expiresAt\<close> of the entries that remain, if any. The result
  holds the exception when a storage call throws.
\<close>

definition alarm :: "int \<Rightarrow> storageFaults \<Rightarrow> 'v policyCache \<Rightarrow> jsError option \<times> 'v policyCache" where
  "alarm now faults s =
     (let kept = filter (\<lambda>(key, entry). \<not> expiresAt entry \<le> now) (cache s);
          removed = length (cache s) - length kept;
          s1 = s\<lparr>cache := kept, alarmAt := None\<rparr>
      in if removed > 0 \<and> putThrows faults \<noteq> None then (putThrows faults, s1)
         else
           (let s2 = (if removed > 0 then s1\<lparr>persisted := Some kept\<rparr> else s1)
            in case map (\<lambda>(key, entry). expiresAt entry) kept of
                 [] \<Rightarrow> (None, s2)
               | e # es \<Rightarrow>
                   (case setAlarmThrows faults of
                      Some err \<Rightarrow> (Some err, s2)
                    | None \<Rightarrow> (None, s2\<lparr>alarmAt := Some (foldl min e es)\<rparr>))))"

text \<open>The earliest \<open>expiresAt\<close> over the entries of the map, as \<open>alarm\<close> computes it.\<close>

definition earliestExpiry :: "'v policyCache \<Rightarrow> int option" where
  "earliestExpiry s =
     (case map (\<lambda>(key, entry). expiresAt entry) (cache s) of
        [] \<Rightarrow> None
      | e # es \<Rightarrow> Some (foldl min e es))"

section \<open>Rate limiter (utils/validation.js)\<close>

text \<open>
  The numeric settings of \<open>env\<close>; \<open>None\<close> is a setting that is not there.
  \<open>orDefault v d\<close> is \<open>v || d\<close>: the default replaces a missing setting and zero.
\<close>

record env =
  RATE_LIMIT_WINDOW_MINUTES :: "int option"
  RATE_LIMIT_REQUESTS_PER_MINUTE :: "int option"
  ANALYSIS_CACHE_TTL_MINUTES :: "int option"

definition orDefault :: "int option \<Rightarrow> int \<Rightarrow> int" where
  "orDefault v d = (case v of None \<Rightarrow> d | Some n \<Rightarrow> if n = 0 then d else n)"

definition windowMs :: "env \<Rightarrow> int" where
  "windowMs e = orDefault (RATE_LIMIT_WINDOW_MINUTES e) 1 * 60 * 1000"

definition maxRequests :: "env \<Rightarrow> int" where
  "maxRequests e = orDefault (RATE_LIMIT_REQUESTS_PER_MINUTE e) 10"

text \<open>The module-level \<open>rateLimitStore\<close>: identifier to the array of admission times.\<close>

type_synonym rateLimitStore = "string \<rightharpoonup> int list"

definition cleanupRateLimitStore :: "int \<Rightarrow> int \<Rightarrow> rateLimitStore \<Rightarrow> rateLimitStore" where
  "cleanupRateLimitStore now window store =
     (\<lambda>key. case store key of
               None \<Rightarrow> None
             | Some requests \<Rightarrow>
                 (let validRequests = filter (\<lambda>time. now - time < window) requests
                  in if length validRequests = 0 then None else Some validRequests))"

text \<open>\<open>rateLimitStore.get(identifier) || []\<close>: the window recorded for an identifier.\<close>

definition userRequests :: "rateLimitStore \<Rightarrow> string \<Rightarrow> int list" where
  "userRequests store identifier = (case store identifier of None \<Rightarrow> [] | Some requests \<Rightarrow> requests)"

text \<open>
  \<open>checkRateLimit(identifier, env)\<close>: \<open>now\<close> is \<open>Date.now()\<close> and \<open>sweep\<close> tells whether
  \<open>Math.random() < 0.01\<close>. The result is the exception thrown, if any, and the store
  after the call; the \<open>throw\<close> comes before every write to the store.
\<close>

definition checkRateLimit ::
  "string \<Rightarrow> env \<Rightarrow> int \<Rightarrow> bool \<Rightarrow> rateLimitStore \<Rightarrow> jsError option \<times> rateLimitStore" where
  "checkRateLimit identifier e now sweep store =
     (let validRequests = filter (\<lambda>time. now - time < windowMs e) (userRequests store identifier)
      in if int (length validRequests) \<ge> maxRequests e
         then (Some (Error ''Rate limit exceeded''), store)
         else
           (let store1 = store(identifier \<mapsto> validRequests @ [now])
            in (None, if sweep then cleanupRateLimitStore now (windowMs e) store1 else store1)))"

text \<open>
  A sequence of calls for one identifier, each with its time and its sweep flag, where
  the caller catches the exception of a call and goes on, as \<open>handleAnalyze\<close> does: the
  outcomes in order and the store after the last call.
\<close>

fun checkRateLimitCalls ::
  "string \<Rightarrow> env \<Rightarrow> (int \<times> bool) list \<Rightarrow> rateLimitStore \<Rightarrow> jsError option list \<times> rateLimitStore" where
  "checkRateLimitCalls identifier e [] store = ([], store)"
| "checkRateLimitCalls identifier e ((now, sweep) # calls) store =
     (let (outcome, store1) = checkRateLimit identifier e now sweep store;
          (outcomes, store2) = checkRateLimitCalls identifier e calls store1
      in (outcome # outcomes, store2))"

text \<open>
  The times of a sequence of calls lie in one window: each call comes less than the
  window after every earlier one.
\<close>

fun withinWindow :: "int \<Rightarrow> int list \<Rightarrow> bool" where
  "withinWindow window [] = True"
| "withinWindow window (t # ts) = ((\<forall>u \<in> set ts. u - t < window) \<and> withinWindow window ts)"

section \<open>Analyze endpoint (api/analyze.js, handleAnalyze)\<close>

text \<open>
  The request: its HTTP method (\<open>request.method\<close>), the outcome of \<open>request.json()\<close> (the members \<open>url\<close> and
  \<open>type\<close> of the body, \<open>None\<close> when absent) and the header \<open>CF-Connecting-IP\<close>.
\<close>

record analyzeBody =
  analyzeUrl :: "string option"
  analyzeType :: "string option"

record analyzeRequest =
  httpMethod :: string
  jsonBody :: "jsError + analyzeBody"
  connectingIP :: "string option"

text \<open>
  The JSON of the reply: \<open>{success: false, error, message?}\<close>,
  \<open>{success: true, result, cached, timestamp}\<close>, or \<open>{success: true, cached: true}\<close> when
  the cached data has no \<open>result\<close> and no \<open>timestamp\<close> (\<open>JSON.stringify\<close> drops the
  members that are \<open>undefined\<close>).
\<close>

datatype 'r apiBody =
    ApiFailure string "string option"
  | ApiSuccess 'r bool int
  | ApiCachedEmpty

datatype 'r apiResponse = ApiResponse nat "'r apiBody"

fun success :: "'r apiResponse \<Rightarrow> bool" where
  "success (ApiResponse code (ApiFailure err msg)) = False"
| "success (ApiResponse code (ApiSuccess r cached ts)) = True"
| "success (ApiResponse code ApiCachedEmpty) = True"

text \<open>
  \<open>handleAnalyze(request, env, ctx)\<close>. Its collaborators are parameters, each returning
  its value or the exception it throws: \<open>validatePolicyUrl\<close>, the call of the cache stub
  for \<open>/check\<close> (\<open>cacheCheck\<close>), \<open>analyzer.analyzePolicy\<close> (\<open>analyze\<close>) and the call of the
  cache stub for \<open>/store\<close> (\<open>cacheStore\<close>). The rate limiter is \<open>checkRateLimit\<close> on the
  store of the module, at time \<open>nowLimit\<close>; \<open>nowReply\<close> is the \<open>Date.now()\<close> of the reply.
  The validation and the rate limiter have a \<open>try\<close> of their own; the two calls of the
  stub and the analysis are under the outer \<open>try\<close> only, whose \<open>catch\<close> answers 500.
  On a check answered with status 200 the handler reads \<open>result\<close> and \<open>timestamp\<close> of
  \<open>cacheResponse.json()\<close>, modelled by \<open>cachedData\<close>: the two members of a cached entry,
  no member of the other JSON bodies, and the SyntaxError of the parser on a body of plain
  text (the texts of this program, \<open>Not found\<close> and \<open>Method not allowed\<close>, are not
  JSON; the engine's message, which quotes the text, is shortened). The reply to the
  store call is not read.
\<close>

fun cachedData :: "'r cacheResponse \<Rightarrow> jsError + ('r \<times> int) option" where
  "cachedData (Response code (JsonCached r ts ex)) = Inr (Some (r, ts))"
| "cachedData (Response code (PlainText t)) = Inl (SyntaxError ''Unexpected token'')"
| "cachedData (Response code b) = Inr None"

text \<open>\<open>request.headers.get('CF-Connecting-IP') || 'unknown'\<close> and the default of \<open>type\<close>.\<close>

definition clientIP :: "analyzeRequest \<Rightarrow> string" where
  "clientIP request =
     (case connectingIP request of None \<Rightarrow> ''unknown'' | Some ip \<Rightarrow> if ip = [] then ''unknown'' else ip)"

definition requestedType :: "analyzeBody \<Rightarrow> string" where
  "requestedType body = (case analyzeType body of None \<Rightarrow> ''privacy'' | Some t \<Rightarrow> t)"

definition handleAnalyze ::
  "analyzeRequest \<Rightarrow> env \<Rightarrow> (string \<Rightarrow> jsError + string)
     \<Rightarrow> (string \<Rightarrow> jsError + 'r cacheResponse)
     \<Rightarrow> (string \<Rightarrow> string \<Rightarrow> jsError + 'r)
     \<Rightarrow> (string \<Rightarrow> 'r \<Rightarrow> int \<Rightarrow> jsError + 'r cacheResponse)
     \<Rightarrow> int \<Rightarrow> bool \<Rightarrow> int \<Rightarrow> rateLimitStore \<Rightarrow> 'r apiResponse \<times> rateLimitStore" where
  "handleAnalyze request e validatePolicyUrl cacheCheck analyze cacheStore nowLimit sweep nowReply store =
     (if httpMethod request \<noteq> ''POST''
      then (ApiResponse 405 (ApiFailure ''Method not allowed'' None), store)
      else
        (case jsonBody request of
           Inl err \<Rightarrow> (ApiResponse 400 (ApiFailure ''Invalid JSON body'' None), store)
         | Inr body \<Rightarrow>
             (case analyzeUrl body of
                None \<Rightarrow> (ApiResponse 400 (ApiFailure ''URL is required'' None), store)
              | Some url \<Rightarrow>
                  if url = [] then (ApiResponse 400 (ApiFailure ''URL is required'' None), store)
                  else
                    (let ptype = requestedType body
                     in case validatePolicyUrl url of
                          Inl err \<Rightarrow> (ApiResponse 400 (ApiFailure (message err) None), store)
                        | Inr href \<Rightarrow>
                            (let (limited, store1) =
                                    checkRateLimit (clientIP request) e nowLimit sweep store
                             in case limited of
                                  Some err \<Rightarrow>
                                    (ApiResponse 429
                                       (ApiFailure ''Rate limit exceeded. Please try again later.'' None),
                                     store1)
                                | None \<Rightarrow>
                                    (case cacheCheck url of
                                       Inl err \<Rightarrow>
                                         (ApiResponse 500
                                            (ApiFailure ''Analysis failed'' (Some (message err))), store1)
                                     | Inr cacheResponse \<Rightarrow>
                                         if status cacheResponse = 200
                                         then
                                           (case cachedData cacheResponse of
                                              Inr (Some (r, ts)) \<Rightarrow>
                                                (ApiResponse 200 (ApiSuccess r True ts), store1)
                                            | Inr None \<Rightarrow>
                                                (ApiResponse 200 ApiCachedEmpty, store1)
                                            | Inl err \<Rightarrow>
                                                (ApiResponse 500
                                                   (ApiFailure ''Analysis failed''
                                                      (Some (message err))), store1))
                                         else
                                         (case analyze url ptype of
                                            Inl err \<Rightarrow>
                                              (ApiResponse 500
                                                 (ApiFailure ''Analysis failed'' (Some (message err))),
                                               store1)
                                          | Inr analysisResult \<Rightarrow>
                                              (case cacheStore url analysisResult
                                                      (orDefault (ANALYSIS_CACHE_TTL_MINUTES e) 30) of
                                                 Inl err \<Rightarrow>
                                                   (ApiResponse 500
                                                      (ApiFailure ''Analysis failed'' (Some (message err))),
                                                    store1)
                                               | Inr stored \<Rightarrow>
                                                   (ApiResponse 200
                                                      (ApiSuccess analysisResult False nowReply),
                                                    store1)))))))))"

section \<open>Example inputs\<close>

text \<open>
  An analysis with one red flag whose GDPR tag is \<open>partially\<close>, and an analysis of a
  compliant policy without red flags.
\<close>

definition flaggedPartial :: analysis where
  "flaggedPartial =
     \<lparr>executiveSummary = Some (JString ''The policy shares data with advertisers.''),
      keyPoints = [''Collects contact data''],
      redFlags = [''Sells personal data to third parties''],
      recommendations = JArray [JString ''Review the sharing section''],
      compliance = [''gdpr'' \<mapsto> ''partially'', ''ccpa'' \<mapsto> ''compliant''],
      sections = [Finding \<lparr>chunkKeyPoints = Some [''Collects contact data''],
                            chunkRedFlags = Some [''Sells personal data to third parties''],
                            chunkCompliance = Some [''gdpr'' \<mapsto> ''partially'',
                                                    ''ccpa'' \<mapsto> ''compliant''],
                            chunkUserRights = Some [''Right to access'']\<rparr>]\<rparr>"

definition compliantPolicy :: analysis where
  "compliantPolicy =
     \<lparr>executiveSummary = Some (JString ''The policy follows the regulations.''),
      keyPoints = [''Collects contact data''],
      redFlags = [],
      recommendations = JArray [JString ''Read the retention section''],
      compliance = [''gdpr'' \<mapsto> ''compliant''],
      sections = [Finding \<lparr>chunkKeyPoints = Some [''Collects contact data''],
                            chunkRedFlags = Some [],
                            chunkCompliance = Some [''gdpr'' \<mapsto> ''compliant''],
                            chunkUserRights = Some []\<rparr>]\<rparr>"

text \<open>
  A page of one sentence, fetched and left as it is by the filter; an inference service
  that answers every chunk with the JSON text \<open>null\<close>, and one that is down.
\<close>

definition pageText :: string where
  "pageText = ''We collect your personal information and share it with our advertising partners''"

definition fetchPage :: "string \<Rightarrow> jsError + string" where
  "fetchPage url = Inr pageText"

definition keepContent :: "string \<Rightarrow> string \<Rightarrow> string" where
  "keepContent content ptype = content"

definition runNull :: "string \<Rightarrow> string \<Rightarrow> chunkAnalysis aiOutcome" where
  "runNull chunk ptype = Parsed JsonNull"

definition runDown :: "string \<Rightarrow> string \<Rightarrow> chunkAnalysis aiOutcome" where
  "runDown chunk ptype = Throws (Error ''Inference service unavailable'')"

definition runSummaryDown :: "analysis \<Rightarrow> string \<Rightarrow> json aiOutcome" where
  "runSummaryDown a ptype = Throws (Error ''Inference service unavailable'')"






definition runSummaryNumber :: "analysis \<Rightarrow> string \<Rightarrow> json aiOutcome" where
  "runSummaryNumber a ptype =
     Parsed (JObject [(''executiveSummary'', JString ''S''), (''recommendations'', JNumber 3)])"



text \<open>
  A storage without faults and one whose \<open>put\<close> throws; an empty cache, and the caches
  after one store, after two stores with different lifetimes, and after a store with a
  lifetime of zero minutes.
\<close>

definition noFaults :: storageFaults where
  "noFaults = \<lparr>putThrows = None, setAlarmThrows = None\<rparr>"

definition putFails :: storageFaults where
  "putFails = \<lparr>putThrows = Some (Error ''Storage operation failed''), setAlarmThrows = None\<rparr>"

definition emptyCache :: "string policyCache" where
  "emptyCache = \<lparr>cache = [], persisted = None, alarmAt = None\<rparr>"

definition storeRequest :: "string \<Rightarrow> string \<Rightarrow> int \<Rightarrow> jsError + string storeBody" where
  "storeRequest url res ttl =
     Inr \<lparr>bodyUrl = Some url, bodyResult = Some res, bodyTtlMinutes = Some ttl\<rparr>"

definition afterOneStore :: "string policyCache" where
  "afterOneStore =
     snd (handleStore (storeRequest ''https://a.example/privacy'' ''analysis A'' 10) 0 0 noFaults
            emptyCache)"

definition afterTwoStores :: "string policyCache" where
  "afterTwoStores =
     snd (handleStore (storeRequest ''https://b.example/terms'' ''analysis B'' 30) 1000 1000 noFaults
            afterOneStore)"


text \<open>
  A limiter of two requests per window of one minute, the empty store, and the store
  after two admissions of one client.
\<close>

definition limitTwo :: env where
  "limitTwo = \<lparr>RATE_LIMIT_WINDOW_MINUTES = Some 1, RATE_LIMIT_REQUESTS_PER_MINUTE = Some 2,
                ANALYSIS_CACHE_TTL_MINUTES = None\<rparr>"

definition noRequests :: rateLimitStore where
  "noRequests = Map.empty"

definition twoRequests :: rateLimitStore where
  "twoRequests = noRequests(''203.0.113.7'' \<mapsto> [0, 1000])"

text \<open>
  An analyze request and its collaborators: a validation that accepts, a cache that
  misses, an analysis that returns, a store call that throws, and a store call that
  reaches \<open>handleStore\<close> of a cache and returns its reply.
\<close>

definition defaultEnv :: env where
  "defaultEnv = \<lparr>RATE_LIMIT_WINDOW_MINUTES = None, RATE_LIMIT_REQUESTS_PER_MINUTE = None,
                  ANALYSIS_CACHE_TTL_MINUTES = None\<rparr>"

definition postRequest :: analyzeRequest where
  "postRequest =
     \<lparr>httpMethod = ''POST'',
      jsonBody = Inr \<lparr>analyzeUrl = Some ''https://a.example/privacy'', analyzeType = None\<rparr>,
      connectingIP = Some ''203.0.113.7''\<rparr>"

definition acceptUrl :: "string \<Rightarrow> jsError + string" where
  "acceptUrl url = Inr url"

definition cacheMiss :: "string \<Rightarrow> jsError + string cacheResponse" where
  "cacheMiss url = Inr (Response 404 (PlainText ''Not found''))"

definition analysisDone :: "string \<Rightarrow> string \<Rightarrow> jsError + string" where
  "analysisDone url ptype = Inr ''analysis A''"

definition storeCallThrows :: "string \<Rightarrow> string \<Rightarrow> int \<Rightarrow> jsError + string cacheResponse" where
  "storeCallThrows url res ttl = Inl (Error ''Durable Object is overloaded'')"

definition storeThroughCache ::
  "storageFaults \<Rightarrow> int \<Rightarrow> 'r policyCache \<Rightarrow> string \<Rightarrow> 'r \<Rightarrow> int \<Rightarrow> jsError + 'r cacheResponse" where
  "storeThroughCache faults now s url res ttl =
     Inr (fst (handleStore
                 (Inr \<lparr>bodyUrl = Some url, bodyResult = Some res, bodyTtlMinutes = Some ttl\<rparr>)
                 now now faults s))"

section \<open>Risk scoring: properties\<close>



lemma overall_of_three:
  "(if Red \<in> set [r, t, u] then Red
    else if Yellow \<in> set [r, t, u] then Yellow else Green)
   = riskMax r (riskMax t u)"
  by (cases r; cases t; cases u) (simp_all add: riskMax_def)

text \<open>
  What the red-flag rule gives on the code: with a red flag, \<open>transparency\<close> is yellow, and
  \<open>regulatory\<close> is red unless a tag is \<open>partially\<close> and none is \<open>non-compliant\<close>.
\<close>

lemma calculateRiskScores_redFlags:
  assumes "redFlags a \<noteq> []" and "calculateRiskScores a = Inr r"
  shows "transparency r = Yellow"
    and "regulatory r = Red \<or> regulatory r = Yellow"
    and "regulatory r = Yellow \<longleftrightarrow>
           (compliance a ''gdpr'' = Some ''partially'' \<or> compliance a ''ccpa'' = Some ''partially'')
           \<and> compliance a ''gdpr'' \<noteq> Some ''non-compliant''
           \<and> compliance a ''ccpa'' \<noteq> Some ''non-compliant''"
  using assms
  by (auto simp: calculateRiskScores_def Let_def split: sum.splits if_splits)

text \<open>
  C1. With a red flag present, \<open>calculateRiskScores\<close> should give \<open>regulatory = red\<close>
  whatever the compliance tags are. On the analysis \<open>flaggedPartial\<close>, which has one red
  flag and the GDPR tag \<open>partially\<close>, the code gives \<open>regulatory = yellow\<close>: the compliance
  test runs after the red-flag test and overwrites its \<open>red\<close>.
\<close>

theorem calculateRiskScores_redFlags_partially:
  "redFlags flaggedPartial = [''Sells personal data to third parties'']
   \<and> calculateRiskScores flaggedPartial
     = Inr \<lparr>overall = Yellow, regulatory = Yellow, transparency = Yellow, userRights = Green\<rparr>"
  by (simp add: calculateRiskScores_def flaggedPartial_def)

text \<open>
  C2. Whenever \<open>calculateRiskScores\<close> returns a risk assessment, its \<open>overall\<close> member
  is the maximum of \<open>regulatory\<close>, \<open>transparency\<close> and \<open>userRights\<close> in the order
  green < yellow < red.
\<close>

theorem calculateRiskScores_overall_max:
  "calculateRiskScores a = Inr r \<Longrightarrow>
     overall r = riskMax (regulatory r) (riskMax (transparency r) (userRights r))"
  unfolding calculateRiskScores_def Let_def
  by (auto split: sum.splits if_splits simp: riskMax_def)

text \<open>C2, at the compliant policy: the scorer returns, and \<open>overall\<close> is the maximum.\<close>

theorem calculateRiskScores_overall_max_witness:
  "calculateRiskScores compliantPolicy
     = Inr \<lparr>overall = Yellow, regulatory = Green, transparency = Green, userRights = Yellow\<rparr>
   \<and> overall \<lparr>overall = Yellow, regulatory = Green, transparency = Green, userRights = Yellow\<rparr>
     = riskMax Green (riskMax Green Yellow)"
proof -
  have r: "calculateRiskScores compliantPolicy
     = Inr \<lparr>overall = Yellow, regulatory = Green, transparency = Green, userRights = Yellow\<rparr>"
    by (simp add: calculateRiskScores_def compliantPolicy_def)
  show ?thesis
    using calculateRiskScores_overall_max [OF r] r by simp
qed

section \<open>Chunking: properties\<close>

lemma splitSentences_plain:
  "\<forall>c \<in> set a. \<not> isTerminator c \<Longrightarrow> splitSentences a = [a]"
  by (subst splitSentences.simps) simp

lemma splitSentences_two:
  assumes a: "\<forall>c \<in> set a. \<not> isTerminator c" and b: "\<forall>c \<in> set b. \<not> isTerminator c"
  shows "splitSentences (a @ ''.'' @ b) = [a, b]"
proof -
  have t: "isTerminator CHR ''.''" by (simp add: isTerminator_def)
  have tw: "takeWhile (\<lambda>c. \<not> isTerminator c) (a @ ''.'' @ b) = a"
    using a t by (simp add: takeWhile_append2)
  have dw: "dropWhile (\<lambda>c. \<not> isTerminator c) (a @ ''.'' @ b) = ''.'' @ b"
    using a t by simp
  have db: "dropWhile isTerminator (''.'' @ b) = b"
    using b t by (cases b) auto
  show ?thesis
    by (subst splitSentences.simps) (simp only: tw dw db splitSentences_plain [OF b], simp)
qed

lemma dropWhile_hd: "xs \<noteq> [] \<Longrightarrow> \<not> P (hd xs) \<Longrightarrow> dropWhile P xs = xs"
  by (cases xs) auto

lemma trim_plain:
  assumes "s \<noteq> []" "\<not> isWhiteSpace (hd s)" "\<not> isWhiteSpace (last s)"
  shows "trim s = s"
proof -
  have 1: "dropWhile isWhiteSpace s = s"
    using assms by (simp add: dropWhile_hd)
  have 2: "dropWhile isWhiteSpace (rev s) = rev s"
    using assms by (simp add: dropWhile_hd hd_rev)
  show ?thesis by (simp add: trim_def 1 2)
qed

text \<open>A text of one sentence longer than 50 characters is its own single chunk, whatever the bound.\<close>

lemma chunkContent_one_sentence:
  assumes a: "\<forall>c \<in> set a. \<not> isTerminator c"
    and ends: "\<not> isWhiteSpace (hd a)" "\<not> isWhiteSpace (last a)"
    and big: "50 < length a"
  shows "chunkContent a m = [a]"
proof -
  have ane: "a \<noteq> []" using big by auto
  have ta: "trim a = a" using ane ends by (rule trim_plain)
  have t0: "trim [] = []" by (simp add: trim_def)
  show ?thesis
    using big ane by (simp add: chunkContent_def splitSentences_plain [OF a] ta t0)
qed

lemma chunkContent_long_sentence:
  "chunkContent (replicate 2001 (CHR ''a'')) defaultMaxChunkSize = [replicate 2001 (CHR ''a'')]"
  by (rule chunkContent_one_sentence) (simp_all add: isTerminator_def isWhiteSpace_def)

text \<open>
  Two sentences that fit the bound together are joined with the separator \<open>'. '\<close>, which
  the size test does not count.
\<close>

lemma chunkContent_two_sentences:
  assumes a: "\<forall>c \<in> set a. \<not> isTerminator c \<and> \<not> isWhiteSpace c"
    and b: "\<forall>c \<in> set b. \<not> isTerminator c \<and> \<not> isWhiteSpace c"
    and la: "10 < length a" and lb: "10 < length b"
    and fit: "length a + length b \<le> m" and big: "48 < length a + length b"
  shows "chunkContent (a @ ''.'' @ b) m = [a @ ''. '' @ b]"
proof -
  have sp: "splitSentences (a @ ''.'' @ b) = [a, b]"
    using a b by (intro splitSentences_two) auto
  have ane: "a \<noteq> []" and bne: "b \<noteq> []" using la lb by auto
  have ta: "trim a = a" using a ane by (intro trim_plain) auto
  have tb: "trim b = b" using b bne by (intro trim_plain) auto
  have tab: "trim (a @ ''. '' @ b) = a @ ''. '' @ b"
    using a b ane bne by (intro trim_plain) (auto simp: hd_append)
  have fit': "\<not> m < length a + length b" using fit by simp
  show ?thesis
    using big ane la lb fit'
    by (simp add: chunkContent_def sp [simplified] ta tb tab [simplified])
qed


text \<open>
  C3. No chunk returned by \<open>chunkContent\<close> should be longer than \<open>maxChunkSize\<close>. On the
  text of two sentences of 1000 characters each, with the default bound of 2000, the
  code returns one chunk of 2002 characters.
\<close>

theorem chunkContent_exceeds_maxChunkSize:
  "chunkContent (replicate 1000 (CHR ''a'') @ ''.'' @ replicate 1000 (CHR ''b'')) defaultMaxChunkSize
     = [replicate 1000 (CHR ''a'') @ ''. '' @ replicate 1000 (CHR ''b'')]
   \<and> length (replicate 1000 (CHR ''a'') @ ''. '' @ replicate 1000 (CHR ''b'')) = 2002
   \<and> defaultMaxChunkSize = 2000"
  using chunkContent_two_sentences [of "replicate 1000 (CHR ''a'')" "replicate 1000 (CHR ''b'')" 2000]
  by (simp add: isTerminator_def isWhiteSpace_def defaultMaxChunkSize_def)

section \<open>Analyzer: degraded inference\<close>

lemma pageText_chunks: "chunkContent pageText defaultMaxChunkSize = [pageText]"
  by (rule chunkContent_one_sentence) (simp_all add: pageText_def isTerminator_def isWhiteSpace_def)










text \<open>
  On a summary whose \<open>recommendations\<close> is a number, \<open>performAIAnalysis\<close> throws at
  \<open>analysis.recommendations.slice(0, 5)\<close>, whatever the chunks are. On the answer \<open>null\<close>
  to a chunk, \<open>analyzePolicy\<close> throws: \<open>calculateRiskScores\<close> reads \<open>userRights\<close> of the
  \<open>null\<close> section.
\<close>

lemma performAIAnalysis_slice_throws:
  "performAIAnalysis run runSummaryNumber chunks ptype
     = Inl (TypeError ''analysis.recommendations.slice is not a function'')"
  by (simp add: performAIAnalysis_def generateSummaryAnalysis_def runSummaryNumber_def Let_def)

lemma analyzePolicy_null_section_throws:
  "analyzePolicy fetchPage keepContent runNull runSummaryDown 7000
        ''https://a.example/privacy'' ''privacy''
     = Inl (Error ''Analysis failed: Cannot read properties of null (reading 'userRights')'')"
  by (simp add: analyzePolicy_def fetchPage_def keepContent_def pageText_chunks
      performAIAnalysis_def generateSummaryAnalysis_def limitedSummary_def analyzeChunk_def
      runNull_def runSummaryDown_def calculateRiskScores_def nullUserRights_def Let_def)




section \<open>Policy cache: properties\<close>

lemma handleStore_cache:
  assumes "url \<noteq> []"
  shows "map_of (cache (snd (handleStore
            (Inr \<lparr>bodyUrl = Some url, bodyResult = Some v, bodyTtlMinutes = ttlField\<rparr>)
            now1 now2 faults s))) url
         = Some \<lparr>result = v, timestamp = now2,
                 expiresAt = now1 + (case ttlField of None \<Rightarrow> 30 | Some m \<Rightarrow> m) * 60 * 1000,
                 ttlMinutes = (case ttlField of None \<Rightarrow> 30 | Some m \<Rightarrow> m)\<rparr>"
  using assms
  by (simp add: handleStore_def Let_def AList.update_conv' split: option.splits)

lemma handleStore_succeeds:
  "url \<noteq> [] \<Longrightarrow>
     fst (handleStore (Inr \<lparr>bodyUrl = Some url, bodyResult = Some v, bodyTtlMinutes = ttlField\<rparr>)
            now1 now2 noFaults s) = Response 200 JsonSuccess"
  by (simp add: handleStore_def noFaults_def Let_def)

lemma handleStore_put_fails:
  "url \<noteq> [] \<Longrightarrow> putThrows faults = Some err \<Longrightarrow>
     fst (handleStore (Inr \<lparr>bodyUrl = Some url, bodyResult = Some res, bodyTtlMinutes = ttlField\<rparr>)
            now1 now2 faults s) = Response 500 (JsonError (message err))"
  by (simp add: handleStore_def Let_def)

text \<open>The alarm handler sets the next alarm to the earliest expiry of the entries it keeps.\<close>

lemma alarm_sets_earliest:
  "fst (alarm now noFaults s) = None
   \<and> alarmAt (snd (alarm now noFaults s)) = earliestExpiry (snd (alarm now noFaults s))"
  by (auto simp add: alarm_def noFaults_def earliestExpiry_def Let_def split: list.splits)

text \<open>
  C4. After a store of a value \<open>v\<close> under a key \<open>url\<close> that the handler accepts, with any
  lifetime, a check of \<open>url\<close> in the resulting state at a time before \<open>expiresAt\<close> answers
  200 with \<open>v\<close>, the stored \<open>timestamp\<close> and \<open>expiresAt\<close>, and a check at \<open>expiresAt\<close> or
  later answers 404. No alarm runs between the store and the check.
\<close>

theorem store_then_check:
  assumes "url \<noteq> []"
  shows "(t < now1 + (case ttlField of None \<Rightarrow> 30 | Some m \<Rightarrow> m) * 60 * 1000 \<longrightarrow>
            handleCheck (Inr (Some url)) t
              (snd (handleStore
                      (Inr \<lparr>bodyUrl = Some url, bodyResult = Some v, bodyTtlMinutes = ttlField\<rparr>)
                      now1 now2 faults s))
            = Response 200
                (JsonCached v now2 (now1 + (case ttlField of None \<Rightarrow> 30 | Some m \<Rightarrow> m) * 60 * 1000)))
       \<and> (now1 + (case ttlField of None \<Rightarrow> 30 | Some m \<Rightarrow> m) * 60 * 1000 \<le> t \<longrightarrow>
            handleCheck (Inr (Some url)) t
              (snd (handleStore
                      (Inr \<lparr>bodyUrl = Some url, bodyResult = Some v, bodyTtlMinutes = ttlField\<rparr>)
                      now1 now2 faults s))
            = Response 404 (PlainText ''Not found''))"
  using assms handleStore_cache [OF assms, of v ttlField now1 now2 faults s]
  by (simp add: handleCheck_def)

text \<open>
  C4, at a store of ten minutes at time 0: the check at 2000 hits, the check at
  600000, the expiry, misses, with the alarm still pending.
\<close>

theorem store_then_check_witness:
  "handleCheck (Inr (Some ''https://a.example/privacy'')) 2000 afterOneStore
     = Response 200 (JsonCached ''analysis A'' 0 600000)
   \<and> handleCheck (Inr (Some ''https://a.example/privacy'')) 600000 afterOneStore
     = Response 404 (PlainText ''Not found'')
   \<and> alarmAt afterOneStore = Some 600000"
proof -
  have h: "''https://a.example/privacy'' \<noteq> []" by simp
  have al: "alarmAt afterOneStore = Some 600000"
    by (simp add: afterOneStore_def storeRequest_def handleStore_def noFaults_def
        emptyCache_def Let_def)
  show ?thesis
    using store_then_check [OF h, of 2000 0 "Some 10" "''analysis A''" 0 noFaults emptyCache]
      store_then_check [OF h, of 600000 0 "Some 10" "''analysis A''" 0 noFaults emptyCache] al
    by (simp add: afterOneStore_def storeRequest_def)
qed

text \<open>
  C5. After a store, the pending alarm should be the earliest \<open>expiresAt\<close> over the
  entries of the cache. After a store of ten minutes at time 0 and a store of thirty
  minutes at time 1000, the code has the alarm at 1801000, the expiry of the second
  entry, while the first entry, still live, expires at 600000.
\<close>

theorem handleStore_alarm_not_earliest:
  "alarmAt afterTwoStores = Some 1801000 \<and> earliestExpiry afterTwoStores = Some 600000"
  by (simp add: afterTwoStores_def afterOneStore_def storeRequest_def handleStore_def
      noFaults_def emptyCache_def earliestExpiry_def Let_def)


text \<open>With a lifetime of zero or less the entry is created already expired.\<close>

lemma handleStore_nonpositive_ttl:
  assumes "url \<noteq> []" and "ttl \<le> 0"
  shows "\<exists>entry. map_of (cache (snd (handleStore
            (Inr \<lparr>bodyUrl = Some url, bodyResult = Some v, bodyTtlMinutes = Some ttl\<rparr>)
            now now faults s))) url = Some entry
          \<and> expiresAt entry \<le> timestamp entry"
  using assms handleStore_cache [OF assms(1), of v "Some ttl" now now faults s]
  by simp



section \<open>Rate limiter: properties\<close>

lemma filter_all: "\<forall>x \<in> set xs. P x \<Longrightarrow> filter P xs = xs"
  by (induction xs) auto

lemma checkRateLimit_admits:
  assumes prev: "userRequests store client = prev"
    and fresh: "\<forall>u \<in> set prev. now - u < windowMs e"
    and room: "int (length prev) < maxRequests e"
    and pos: "0 < windowMs e"
  shows "fst (checkRateLimit client e now sweep store) = None"
    and "snd (checkRateLimit client e now sweep store) client = Some (prev @ [now])"
proof -
  have f: "filter (\<lambda>time. now - time < windowMs e) prev = prev"
    using fresh by (simp add: filter_all)
  show "fst (checkRateLimit client e now sweep store) = None"
    using room by (simp add: checkRateLimit_def prev f Let_def)
  show "snd (checkRateLimit client e now sweep store) client = Some (prev @ [now])"
    using room pos by (simp add: checkRateLimit_def prev f Let_def cleanupRateLimitStore_def)
qed

lemma checkRateLimit_denies:
  assumes prev0: "store client = Some prev"
    and fresh: "\<forall>u \<in> set prev. now - u < windowMs e"
    and full: "maxRequests e \<le> int (length prev)"
  shows "checkRateLimit client e now sweep store = (Some (Error ''Rate limit exceeded''), store)"
proof -
  have prev: "userRequests store client = prev" by (simp add: userRequests_def prev0)
  have f: "filter (\<lambda>time. now - time < windowMs e) prev = prev"
    using fresh by (simp add: filter_all)
  show ?thesis using full by (simp add: checkRateLimit_def prev f Let_def)
qed

lemma checkRateLimit_resumes:
  assumes prev0: "store client = Some prev"
    and old: "\<forall>u \<in> set prev. windowMs e \<le> now - u"
    and cap: "0 < maxRequests e" and pos: "0 < windowMs e"
  shows "fst (checkRateLimit client e now sweep store) = None"
    and "snd (checkRateLimit client e now sweep store) client = Some [now]"
proof -
  have prev: "userRequests store client = prev" by (simp add: userRequests_def prev0)
  have f: "filter (\<lambda>time. now - time < windowMs e) prev = []"
    using old by (induction prev) auto
  show "fst (checkRateLimit client e now sweep store) = None"
    using cap by (simp add: checkRateLimit_def prev f Let_def)
  show "snd (checkRateLimit client e now sweep store) client = Some [now]"
    using cap pos by (simp add: checkRateLimit_def prev f Let_def cleanupRateLimitStore_def)
qed

lemma calls_admitted:
  assumes "userRequests store client = prev"
    and "int (length prev + length calls) \<le> maxRequests e"
    and "0 < windowMs e"
    and "\<forall>u \<in> set prev. \<forall>t \<in> set (map fst calls). t - u < windowMs e"
    and "withinWindow (windowMs e) (map fst calls)"
  shows "fst (checkRateLimitCalls client e calls store) = replicate (length calls) None
     \<and> userRequests (snd (checkRateLimitCalls client e calls store)) client = prev @ map fst calls"
  using assms
proof (induction calls arbitrary: store prev)
  case Nil
  then show ?case by simp
next
  case (Cons c calls)
  obtain now sweep where c: "c = (now, sweep)" by (cases c)
  let ?store1 = "snd (checkRateLimit client e now sweep store)"
  have fresh: "\<forall>u \<in> set prev. now - u < windowMs e"
    using Cons.prems(4) c by simp
  have room: "int (length prev) < maxRequests e"
    using Cons.prems(2) by simp
  have adm: "fst (checkRateLimit client e now sweep store) = None"
    and rec: "?store1 client = Some (prev @ [now])"
    using checkRateLimit_admits [OF Cons.prems(1) fresh room Cons.prems(3)] by simp_all
  have p1: "userRequests ?store1 client = prev @ [now]"
    by (simp add: rec userRequests_def)
  have p2: "int (length (prev @ [now]) + length calls) \<le> maxRequests e"
    using Cons.prems(2) by simp
  have p4: "\<forall>u \<in> set (prev @ [now]). \<forall>t \<in> set (map fst calls). t - u < windowMs e"
    using Cons.prems(4,5) c by auto
  have p5: "withinWindow (windowMs e) (map fst calls)"
    using Cons.prems(5) c by simp
  note ih = Cons.IH [OF p1 p2 Cons.prems(3) p4 p5]
  show ?case
    using ih adm by (simp add: c case_prod_unfold Let_def)
qed


text \<open>
  C8. For one client whose window is empty, with a positive cap and a positive window
  width: \<open>maxRequests\<close> calls whose times lie in one window are all admitted and their
  times recorded; a further call less than the window after each of them throws the
  rate-limit error; and a call at least the window after each of them is admitted.
\<close>

theorem checkRateLimit_window_boundary:
  assumes empty: "store client = None"
    and cap: "0 < maxRequests e" and pos: "0 < windowMs e"
    and n: "int (length calls) = maxRequests e"
    and win: "withinWindow (windowMs e) (map fst calls)"
  shows "fst (checkRateLimitCalls client e calls store) = replicate (length calls) None
     \<and> snd (checkRateLimitCalls client e calls store) client = Some (map fst calls)
     \<and> ((\<forall>u \<in> set (map fst calls). nowIn - u < windowMs e) \<longrightarrow>
           fst (checkRateLimit client e nowIn sweepIn
                  (snd (checkRateLimitCalls client e calls store)))
           = Some (Error ''Rate limit exceeded''))
     \<and> ((\<forall>u \<in> set (map fst calls). windowMs e \<le> nowAfter - u) \<longrightarrow>
           fst (checkRateLimit client e nowAfter sweepAfter
                  (snd (checkRateLimitCalls client e calls store))) = None
           \<and> snd (checkRateLimit client e nowAfter sweepAfter
                  (snd (checkRateLimitCalls client e calls store))) client
             = Some [nowAfter])"
proof -
  let ?store = "snd (checkRateLimitCalls client e calls store)"
  have u0: "userRequests store client = []"
    by (simp add: userRequests_def empty)
  have adm: "fst (checkRateLimitCalls client e calls store) = replicate (length calls) None"
    and rec: "userRequests ?store client = map fst calls"
    using calls_admitted [where prev = "[]", OF u0 _ pos _ win] n by simp_all
  have "calls \<noteq> []" using cap n by auto
  then have some: "?store client = Some (map fst calls)"
    using rec by (cases "?store client") (simp_all add: userRequests_def)
  have full: "maxRequests e \<le> int (length (map fst calls))" using n by simp
  show ?thesis
    using adm some
      checkRateLimit_denies [where store = ?store and client = client
        and now = nowIn and sweep = sweepIn, OF some _ full]
      checkRateLimit_resumes [where store = ?store and client = client
        and now = nowAfter and sweep = sweepAfter, OF some _ cap pos]
    by simp
qed

text \<open>
  C8, at a cap of two per minute: calls at 0 and 1000 are admitted, a call at 2000 is
  refused, a call at 61000 is admitted.
\<close>

theorem checkRateLimit_window_boundary_witness:
  "checkRateLimitCalls ''203.0.113.7'' limitTwo [(0, False), (1000, True)] noRequests
     = ([None, None], twoRequests)
   \<and> fst (checkRateLimit ''203.0.113.7'' limitTwo 2000 False twoRequests)
     = Some (Error ''Rate limit exceeded'')
   \<and> fst (checkRateLimit ''203.0.113.7'' limitTwo 61000 False twoRequests) = None
   \<and> snd (checkRateLimit ''203.0.113.7'' limitTwo 61000 False twoRequests) ''203.0.113.7''
     = Some [61000]"
proof -
  have w: "windowMs limitTwo = 60000" and m: "maxRequests limitTwo = 2"
    by (simp_all add: windowMs_def maxRequests_def limitTwo_def orDefault_def)
  have run: "checkRateLimitCalls ''203.0.113.7'' limitTwo [(0, False), (1000, True)] noRequests
     = ([None, None], twoRequests)"
    by (simp add: checkRateLimit_def userRequests_def cleanupRateLimitStore_def
        noRequests_def twoRequests_def w m fun_eq_iff)
  have h1: "noRequests ''203.0.113.7'' = None" by (simp add: noRequests_def)
  have h2: "0 < maxRequests limitTwo" by (simp add: m)
  have h3: "0 < windowMs limitTwo" by (simp add: w)
  have h4: "int (length [(0::int, False), (1000, True)]) = maxRequests limitTwo" by (simp add: m)
  have h5: "withinWindow (windowMs limitTwo) (map fst [(0::int, False), (1000, True)])"
    by (simp add: w)
  show ?thesis
    using checkRateLimit_window_boundary
            [where store = noRequests and client = "''203.0.113.7''" and nowIn = 2000
               and sweepIn = False and nowAfter = 61000 and sweepAfter = False,
             OF h1 h2 h3 h4 h5] run
    by (simp add: w)
qed

text \<open>
  C10. When \<open>checkRateLimit\<close> throws, the error is the rate-limit error and the store
  after the call is the store before it: no time is recorded and the pruned window is
  not written back.
\<close>

theorem checkRateLimit_denied_store_unchanged:
  "fst (checkRateLimit client e now sweep store) = Some err \<Longrightarrow>
     snd (checkRateLimit client e now sweep store) = store \<and> err = Error ''Rate limit exceeded''"
  by (auto simp: checkRateLimit_def Let_def split: if_splits)

text \<open>C10, at the third call of a client that has used its two admissions.\<close>

theorem checkRateLimit_denied_store_unchanged_witness:
  "fst (checkRateLimit ''203.0.113.7'' limitTwo 2000 True twoRequests)
     = Some (Error ''Rate limit exceeded'')
   \<and> snd (checkRateLimit ''203.0.113.7'' limitTwo 2000 True twoRequests) = twoRequests"
proof -
  have w: "windowMs limitTwo = 60000" and m: "maxRequests limitTwo = 2"
    by (simp_all add: windowMs_def maxRequests_def limitTwo_def orDefault_def)
  have h: "fst (checkRateLimit ''203.0.113.7'' limitTwo 2000 True twoRequests)
     = Some (Error ''Rate limit exceeded'')"
    by (simp add: checkRateLimit_def userRequests_def twoRequests_def w m)
  show ?thesis
    using checkRateLimit_denied_store_unchanged [OF h] h by simp
qed

section \<open>Analyze endpoint: properties\<close>

text \<open>
  C6, as stated, fails when the store call itself throws: the call is under the outer
  \<open>try\<close> only, and the request is answered 500 with \<open>success = false\<close> although the
  analysis was computed.
\<close>

theorem handleAnalyze_store_throw_fails:
  "fst (handleAnalyze postRequest defaultEnv acceptUrl cacheMiss analysisDone storeCallThrows
          5000 False 9000 noRequests)
     = ApiResponse 500 (ApiFailure ''Analysis failed'' (Some ''Durable Object is overloaded''))
   \<and> \<not> success (fst (handleAnalyze postRequest defaultEnv acceptUrl cacheMiss analysisDone
                       storeCallThrows 5000 False 9000 noRequests))"
  by (simp add: handleAnalyze_def postRequest_def defaultEnv_def acceptUrl_def cacheMiss_def
      analysisDone_def storeCallThrows_def noRequests_def checkRateLimit_def userRequests_def
      maxRequests_def windowMs_def orDefault_def clientIP_def requestedType_def Let_def)

text \<open>
  C6, amended. For every analyze request whose validation, rate-limit check, cache
  lookup (a miss) and analysis succeed, and whose store call returns a reply, whatever
  its status (a storage error inside \<open>handleStore\<close> is caught there and answered 500), the
  handler returns the freshly computed result with \<open>success = true\<close> and \<open>cached = false\<close>.
\<close>

theorem handleAnalyze_store_reply_ignored:
  assumes "httpMethod request = ''POST''"
    and "jsonBody request = Inr body"
    and "analyzeUrl body = Some url" and "url \<noteq> []"
    and "validatePolicyUrl url = Inr href"
    and "fst (checkRateLimit (clientIP request) e nowLimit sweep store) = None"
    and "cacheCheck url = Inr checked" and "status checked \<noteq> 200"
    and "analyze url (requestedType body) = Inr analysisResult"
    and "cacheStore url analysisResult (orDefault (ANALYSIS_CACHE_TTL_MINUTES e) 30) = Inr stored"
  shows "fst (handleAnalyze request e validatePolicyUrl cacheCheck analyze cacheStore
                nowLimit sweep nowReply store)
         = ApiResponse 200 (ApiSuccess analysisResult False nowReply)
       \<and> success (fst (handleAnalyze request e validatePolicyUrl cacheCheck analyze cacheStore
                          nowLimit sweep nowReply store))"
  using assms
  by (simp add: handleAnalyze_def Let_def case_prod_unfold)

text \<open>
  C6, amended, at a store whose \<open>storage.put\<close> throws: \<open>handleStore\<close> answers 500 and the
  analyze request succeeds.
\<close>

theorem handleAnalyze_store_reply_ignored_witness:
  "storeThroughCache putFails 8000 emptyCache ''https://a.example/privacy'' ''analysis A'' 30
     = Inr (Response 500 (JsonError ''Storage operation failed''))
   \<and> fst (handleAnalyze postRequest defaultEnv acceptUrl cacheMiss analysisDone
            (storeThroughCache putFails 8000 emptyCache) 5000 False 9000 noRequests)
     = ApiResponse 200 (ApiSuccess ''analysis A'' False 9000)"
proof -
  have st: "storeThroughCache putFails 8000 emptyCache ''https://a.example/privacy'' ''analysis A'' 30
     = Inr (Response 500 (JsonError ''Storage operation failed''))"
    by (simp add: storeThroughCache_def handleStore_put_fails putFails_def)
  have h1: "httpMethod postRequest = ''POST''" by (simp add: postRequest_def)
  have h2: "jsonBody postRequest
     = Inr \<lparr>analyzeUrl = Some ''https://a.example/privacy'', analyzeType = None\<rparr>"
    by (simp add: postRequest_def)
  have h3: "analyzeUrl \<lparr>analyzeUrl = Some ''https://a.example/privacy'', analyzeType = None\<rparr>
     = Some ''https://a.example/privacy''" by simp
  have h4: "''https://a.example/privacy'' \<noteq> []" by simp
  have h5: "acceptUrl ''https://a.example/privacy'' = Inr ''https://a.example/privacy''"
    by (simp add: acceptUrl_def)
  have h6: "fst (checkRateLimit (clientIP postRequest) defaultEnv 5000 False noRequests) = None"
    by (simp add: checkRateLimit_def userRequests_def noRequests_def maxRequests_def
        defaultEnv_def orDefault_def)
  have h7: "cacheMiss ''https://a.example/privacy'' = Inr (Response 404 (PlainText ''Not found''))"
    by (simp add: cacheMiss_def)
  have h8: "status (Response 404 (PlainText ''Not found'') :: string cacheResponse) \<noteq> 200" by simp
  have h9: "analysisDone ''https://a.example/privacy''
              (requestedType \<lparr>analyzeUrl = Some ''https://a.example/privacy'', analyzeType = None\<rparr>)
            = Inr ''analysis A''"
    by (simp add: analysisDone_def)
  have h10: "storeThroughCache putFails 8000 emptyCache ''https://a.example/privacy'' ''analysis A''
               (orDefault (ANALYSIS_CACHE_TTL_MINUTES defaultEnv) 30)
             = Inr (Response 500 (JsonError ''Storage operation failed''))"
    using st by (simp add: defaultEnv_def orDefault_def)
  show ?thesis
    using st handleAnalyze_store_reply_ignored
            [where validatePolicyUrl = acceptUrl and cacheCheck = cacheMiss and analyze = analysisDone
               and cacheStore = "storeThroughCache putFails 8000 emptyCache" and nowReply = 9000,
             OF h1 h2 h3 h4 h5 h6 h7 h8 h9 h10]
    by simp
qed

end
